theory Spec2Isabelle
  imports Main "HOL-Library.Sublist"
begin

section \<open>Python values\<close>

text \<open>
  The values that flow through the client are the ones \<open>response.json()\<close> produces, plus
  \<open>None\<close> and raw text: \<open>None\<close>, booleans, integers, floats, strings, lists and dicts.
  A dict is an association list in insertion order (the decoder yields each key once);
  a string is a list of characters with code points below 256.
  A float is kept abstract: all the client ever does with one is test its truth value and
  format it, so it carries just these two observations.
\<close>

datatype pyfloat = PyFloat (float_nonzero: bool) (float_repr: string)

datatype json =
    JNull
  | JBool bool
  | JInt int
  | JFloat pyfloat
  | JStr string
  | JArr "json list"
  | JObj "(string \<times> json) list"

text \<open>The exceptions that occur, by Python class; all of them are subclasses of
  \<open>Exception\<close>, so an \<open>except Exception\<close> clause catches each.\<close>

datatype exn =
    HTTPError
  | ConnectionError
  | Timeout
  | RequestException
  | ValueError string
  | PermissionError string
  | TypeError
  | AttributeError string
  | OSError
  | OtherException string

text \<open>\<open>bool(v)\<close>, as used by \<open>if v\<close> and \<open>not v\<close>.\<close>

fun py_truthy :: "json \<Rightarrow> bool" where
  "py_truthy JNull = False"
| "py_truthy (JBool b) = b"
| "py_truthy (JInt i) = (i \<noteq> 0)"
| "py_truthy (JFloat f) = float_nonzero f"
| "py_truthy (JStr s) = (s \<noteq> [])"
| "py_truthy (JArr xs) = (xs \<noteq> [])"
| "py_truthy (JObj kvs) = (kvs \<noteq> [])"

text \<open>\<open>k in v\<close> for a string \<open>k\<close>: key membership on a dict, element equality on a list,
  substring on a string, and a \<open>TypeError\<close> on everything that is not a container.\<close>

fun py_in :: "string \<Rightarrow> json \<Rightarrow> exn + bool" where
  "py_in k (JObj kvs) = Inr (k \<in> fst ` set kvs)"
| "py_in k (JArr xs) = Inr (JStr k \<in> set xs)"
| "py_in k (JStr s) = Inr (sublist k s)"
| "py_in k JNull = Inl TypeError"
| "py_in k (JBool b) = Inl TypeError"
| "py_in k (JInt i) = Inl TypeError"
| "py_in k (JFloat f) = Inl TypeError"

text \<open>\<open>v.get(k, d)\<close>: only a dict has the method.\<close>

fun py_get :: "json \<Rightarrow> string \<Rightarrow> json \<Rightarrow> exn + json" where
  "py_get (JObj kvs) k d = Inr (case map_of kvs k of None \<Rightarrow> d | Some v \<Rightarrow> v)"
| "py_get JNull k d = Inl (AttributeError ''get'')"
| "py_get (JBool b) k d = Inl (AttributeError ''get'')"
| "py_get (JInt i) k d = Inl (AttributeError ''get'')"
| "py_get (JFloat f) k d = Inl (AttributeError ''get'')"
| "py_get (JStr s) k d = Inl (AttributeError ''get'')"
| "py_get (JArr xs) k d = Inl (AttributeError ''get'')"

text \<open>The elements \<open>list.extend(v)\<close> appends: the items of a list, the characters of a
  string, the keys of a dict; anything else is not iterable.\<close>

fun py_iter :: "json \<Rightarrow> exn + json list" where
  "py_iter (JArr xs) = Inr xs"
| "py_iter (JStr s) = Inr (map (\<lambda>c. JStr [c]) s)"
| "py_iter (JObj kvs) = Inr (map (\<lambda>kv. JStr (fst kv)) kvs)"
| "py_iter JNull = Inl TypeError"
| "py_iter (JBool b) = Inl TypeError"
| "py_iter (JInt i) = Inl TypeError"
| "py_iter (JFloat f) = Inl TypeError"

subsection \<open>Formatting\<close>

text \<open>\<open>str(v)\<close>, which an f-string applies to each interpolated value. Containers show
  their elements with \<open>repr\<close>, which differs from \<open>str\<close> on strings only.\<close>

definition digit_char :: "nat \<Rightarrow> char" where
  "digit_char n = char_of (48 + n)"

fun digits :: "nat \<Rightarrow> string" where
  "digits n = (if n < 10 then [digit_char n] else digits (n div 10) @ [digit_char (n mod 10)])"

declare digits.simps [simp del]

definition int_str :: "int \<Rightarrow> string" where
  "int_str i = (if i < 0 then CHR ''-'' # digits (nat (- i)) else digits (nat i))"

definition hex_char :: "nat \<Rightarrow> char" where
  "hex_char n = (if n < 10 then char_of (48 + n) else char_of (87 + n))"

definition printable :: "char \<Rightarrow> bool" where
  "printable c = (let n = (of_char c :: nat) in
     32 \<le> n \<and> n \<noteq> 127 \<and> \<not> (128 \<le> n \<and> n \<le> 160) \<and> n \<noteq> 173)"

definition repr_char :: "char \<Rightarrow> char \<Rightarrow> string" where
  "repr_char q c =
    (if c = q \<or> c = CHR 0x5C then [CHR 0x5C, c]
     else if c = CHR 0x09 then [CHR 0x5C, CHR ''t'']
     else if c = CHR 0x0A then [CHR 0x5C, CHR ''n'']
     else if c = CHR 0x0D then [CHR 0x5C, CHR ''r'']
     else if printable c then [c]
     else [CHR 0x5C, CHR ''x'', hex_char (of_char c div 16), hex_char (of_char c mod 16)])"

definition str_repr :: "string \<Rightarrow> string" where
  "str_repr s =
    (let q = (if CHR 0x27 \<in> set s \<and> CHR 0x22 \<notin> set s then CHR 0x22 else CHR 0x27)
     in q # concat (map (repr_char q) s) @ [q])"

fun join :: "string \<Rightarrow> string list \<Rightarrow> string" where
  "join sep [] = []"
| "join sep [x] = x"
| "join sep (x # y # ys) = x @ sep @ join sep (y # ys)"

fun py_repr :: "json \<Rightarrow> string" where
  "py_repr JNull = ''None''"
| "py_repr (JBool b) = (if b then ''True'' else ''False'')"
| "py_repr (JInt i) = int_str i"
| "py_repr (JFloat f) = float_repr f"
| "py_repr (JStr s) = str_repr s"
| "py_repr (JArr xs) = ''['' @ join '', '' (map py_repr xs) @ '']''"
| "py_repr (JObj kvs) =
     ''{'' @ join '', '' (map (\<lambda>kv. str_repr (fst kv) @ '': '' @ py_repr (snd kv)) kvs) @ ''}''"

fun py_str :: "json \<Rightarrow> string" where
  "py_str (JStr s) = s"
| "py_str v = py_repr v"

section \<open>The transport: what the \<open>requests\<close> library is given and what it gives back\<close>

datatype http_method = GET | POST | PUT | PATCH

text \<open>A call \<open>requests.<method>(url, headers=..., params=..., data=..., json=..., files=...)\<close>.
  A keyword that the call does not pass is \<open>None\<close>; \<open>json=data\<close> with \<open>data\<close> being
  Python's \<open>None\<close> is \<open>Some JNull\<close>.\<close>

record request =
  req_method :: http_method
  req_url :: string
  req_headers :: "(string \<times> string) list option"
  req_params :: "json option"
  req_data :: "json option"
  req_json :: "json option"
  req_files :: "(string \<times> string) list option"

text \<open>A response object: \<open>status_code\<close>, \<open>headers.get('Content-Type')\<close>, the body \<open>text\<close>, and the
  result of \<open>json()\<close>, which is \<open>None\<close> here when the body does not decode (the call raises
  a \<open>ValueError\<close>).\<close>

record response =
  status_code :: int
  content_type :: "string option"
  body_text :: string
  json_body :: "json option"

datatype outcome = Responded response | Raised exn

text \<open>The network is a parameter: a function from the state of the outside world and a
  request to what the call does (a response, or an exception) and the world afterwards.\<close>

type_synonym 'w network = "'w \<Rightarrow> request \<Rightarrow> outcome \<times> 'w"

section \<open>The API client (\<open>utils.py\<close>)\<close>

definition TOKEN_ENDPOINT :: string where
  "TOKEN_ENDPOINT = ''https://accounts.hyperproof.app/oauth/token''"

text \<open>The client object with its three attributes, together with the outside world and the
  list of the requests handed to \<open>requests\<close> so far, oldest first.\<close>

record 'w client =
  client_id :: json
  client_secret :: json
  access_token :: json
  sent :: "request list"
  world :: 'w

definition perform :: "'w network \<Rightarrow> 'w client \<Rightarrow> request \<Rightarrow> outcome \<times> 'w client" where
  "perform net s r =
    (case net (world s) r of (out, w) \<Rightarrow> (out, s\<lparr>sent := sent s @ [r], world := w\<rparr>))"

text \<open>Modelled from the spec: \<open>response.raise_for_status()\<close> belongs to the \<open>requests\<close>
  library, which is not part of the sources; the spec has it fail exactly when the status
  indicates a client or server error (4xx/5xx).\<close>

definition raise_for_status :: "response \<Rightarrow> exn option" where
  "raise_for_status response =
    (if 400 \<le> status_code response \<and> status_code response < 600 then Some HTTPError else None)"

definition parse_json :: "response \<Rightarrow> json" where
  "parse_json response =
    (if sublist ''application/json''
          (case content_type response of None \<Rightarrow> [] | Some t \<Rightarrow> t)
     then (case json_body response of Some v \<Rightarrow> v | None \<Rightarrow> JObj [])
     else JObj [])"

definition handle_response :: "response \<Rightarrow> bool \<Rightarrow> json" where
  "handle_response response raw =
    (case raise_for_status response of
       Some err \<Rightarrow> JNull
     | None \<Rightarrow> if raw then JStr (body_text response) else parse_json response)"

definition token_request :: "'w client \<Rightarrow> request" where
  "token_request s =
    \<lparr>req_method = POST, req_url = TOKEN_ENDPOINT, req_headers = None, req_params = None,
     req_data = Some (JObj [(''grant_type'', JStr ''client_credentials''),
                            (''client_id'', client_id s),
                            (''client_secret'', client_secret s)]),
     req_json = None, req_files = None\<rparr>"

text \<open>The classes named by \<open>except (HTTPError, ConnectionError, Timeout, RequestException)\<close>.\<close>

fun request_exception :: "exn \<Rightarrow> bool" where
  "request_exception HTTPError = True"
| "request_exception ConnectionError = True"
| "request_exception Timeout = True"
| "request_exception RequestException = True"
| "request_exception (ValueError m) = False"
| "request_exception (PermissionError m) = False"
| "request_exception TypeError = False"
| "request_exception (AttributeError m) = False"
| "request_exception OSError = False"
| "request_exception (OtherException m) = False"

text \<open>The body of the \<open>try\<close> in \<open>_authenticate\<close>, then the method with its handler.\<close>

definition authenticate_try :: "'w network \<Rightarrow> 'w client \<Rightarrow> (exn + unit) \<times> 'w client" where
  "authenticate_try net s =
    (case perform net s (token_request s) of
       (Raised err, s1) \<Rightarrow> (Inl err, s1)
     | (Responded response, s1) \<Rightarrow>
         if status_code response = 200
         then (case py_get (parse_json response) ''access_token'' JNull of
                 Inl err \<Rightarrow> (Inl err, s1)
               | Inr tok \<Rightarrow> (Inr (), s1\<lparr>access_token := tok\<rparr>))
         else (Inr (), s1\<lparr>access_token := JNull\<rparr>))"

definition authenticate :: "'w network \<Rightarrow> 'w client \<Rightarrow> (exn + unit) \<times> 'w client" where
  "authenticate net s =
    (case authenticate_try net s of
       (Inl err, s1) \<Rightarrow>
         if request_exception err then (Inr (), s1\<lparr>access_token := JNull\<rparr>) else (Inl err, s1)
     | (Inr u, s1) \<Rightarrow> (Inr u, s1))"

definition get_headers ::
  "'w network \<Rightarrow> 'w client \<Rightarrow> (exn + (string \<times> string) list) \<times> 'w client" where
  "get_headers net s =
    (case (if \<not> py_truthy (access_token s) then authenticate net s else (Inr (), s)) of
       (Inl err, s1) \<Rightarrow> (Inl err, s1)
     | (Inr u, s1) \<Rightarrow>
         (Inr [(''Authorization'', ''Bearer '' @ py_str (access_token s1)),
               (''Content-Type'', ''application/json'')], s1))"

text \<open>The four verbs. The headers are built inside the \<open>try\<close>, so an exception leaving
  \<open>_get_headers\<close> is caught like one raised by the transport, and the result is \<open>None\<close>.\<close>

definition get ::
  "'w network \<Rightarrow> 'w client \<Rightarrow> string \<Rightarrow> string \<Rightarrow> json \<Rightarrow> bool \<Rightarrow> json \<times> 'w client" where
  "get net s base_url endpoint params raw =
    (case get_headers net s of
       (Inl err, s1) \<Rightarrow> (JNull, s1)
     | (Inr headers, s1) \<Rightarrow>
         (case perform net s1
                 \<lparr>req_method = GET, req_url = base_url @ endpoint, req_headers = Some headers,
                  req_params = Some params, req_data = None, req_json = None,
                  req_files = None\<rparr> of
            (Raised err, s2) \<Rightarrow> (JNull, s2)
          | (Responded response, s2) \<Rightarrow> (handle_response response raw, s2)))"

text \<open>\<open>if files\<close>: a files mapping is false when it is \<open>None\<close> or empty.\<close>

fun files_truthy :: "(string \<times> string) list option \<Rightarrow> bool" where
  "files_truthy None = False"
| "files_truthy (Some fs) = (fs \<noteq> [])"

definition post ::
  "'w network \<Rightarrow> 'w client \<Rightarrow> string \<Rightarrow> string \<Rightarrow> json \<Rightarrow> (string \<times> string) list option \<Rightarrow> bool
    \<Rightarrow> json \<times> 'w client" where
  "post net s base_url endpoint data files raw =
    (case get_headers net s of
       (Inl err, s1) \<Rightarrow> (JNull, s1)
     | (Inr headers, s1) \<Rightarrow>
         (case perform net s1
                 (if files_truthy files
                  then \<lparr>req_method = POST, req_url = base_url @ endpoint,
                        req_headers = Some headers, req_params = None, req_data = None,
                        req_json = None, req_files = files\<rparr>
                  else \<lparr>req_method = POST, req_url = base_url @ endpoint,
                        req_headers = Some headers, req_params = None, req_data = None,
                        req_json = Some data, req_files = None\<rparr>) of
            (Raised err, s2) \<Rightarrow> (JNull, s2)
          | (Responded response, s2) \<Rightarrow> (handle_response response raw, s2)))"

definition put ::
  "'w network \<Rightarrow> 'w client \<Rightarrow> string \<Rightarrow> string \<Rightarrow> json \<Rightarrow> bool \<Rightarrow> json \<times> 'w client" where
  "put net s base_url endpoint data raw =
    (case get_headers net s of
       (Inl err, s1) \<Rightarrow> (JNull, s1)
     | (Inr headers, s1) \<Rightarrow>
         (case perform net s1
                 \<lparr>req_method = PUT, req_url = base_url @ endpoint, req_headers = Some headers,
                  req_params = None, req_data = None, req_json = Some data,
                  req_files = None\<rparr> of
            (Raised err, s2) \<Rightarrow> (JNull, s2)
          | (Responded response, s2) \<Rightarrow> (handle_response response raw, s2)))"

definition patch ::
  "'w network \<Rightarrow> 'w client \<Rightarrow> string \<Rightarrow> string \<Rightarrow> json \<Rightarrow> bool \<Rightarrow> json \<times> 'w client" where
  "patch net s base_url endpoint data raw =
    (case get_headers net s of
       (Inl err, s1) \<Rightarrow> (JNull, s1)
     | (Inr headers, s1) \<Rightarrow>
         (case perform net s1
                 \<lparr>req_method = PATCH, req_url = base_url @ endpoint, req_headers = Some headers,
                  req_params = None, req_data = None, req_json = Some data,
                  req_files = None\<rparr> of
            (Raised err, s2) \<Rightarrow> (JNull, s2)
          | (Responded response, s2) \<Rightarrow> (handle_response response raw, s2)))"

section \<open>The labels API (\<open>labels_api.py\<close>)\<close>

definition LabelsAPI_BASE_URL :: string where
  "LabelsAPI_BASE_URL = ''https://api.hyperproof.app/v1/labels''"

definition get_label_summaries ::
  "'w network \<Rightarrow> 'w client \<Rightarrow> json \<Rightarrow> json \<Rightarrow> bool \<Rightarrow> json \<times> 'w client" where
  "get_label_summaries net s can_link status raw =
    get net s LabelsAPI_BASE_URL ''/summaries''
      (JObj [(''canLink'', can_link), (''status'', status)]) raw"

section \<open>The proof API (\<open>proof_api.py\<close>)\<close>

definition ProofAPI_BASE_URL :: string where
  "ProofAPI_BASE_URL = ''https://api.hyperproof.app/v1/proof''"

definition no_data :: string where
  "no_data = ''No data returned from get_proof_metadata_collection.''"

text \<open>The \<open>params\<close> dict that every iteration of a pagination loop builds.\<close>

definition page_params :: "json \<Rightarrow> json \<Rightarrow> json \<Rightarrow> json \<Rightarrow> json \<Rightarrow> json \<Rightarrow> json" where
  "page_params limit sort_by sort_direction object_type object_id next_token =
    JObj [(''limit'', limit), (''sortBy'', sort_by), (''sortDirection'', sort_direction),
          (''objectType'', object_type), (''objectId'', object_id),
          (''nextToken'', next_token)]"

subsection \<open>\<open>get_proof_metadata_collection\<close>\<close>

text \<open>One iteration, from the check of the response on: the error raised, or the extended
  accumulator with the next token.\<close>

definition get_proof_metadata_collection_page ::
  "json list \<Rightarrow> json \<Rightarrow> exn + json list \<times> json" where
  "get_proof_metadata_collection_page all_proofs response =
    (if \<not> py_truthy response then Inl (ValueError no_data)
     else (case py_in ''data'' response of
        Inl err \<Rightarrow> Inl err
      | Inr present \<Rightarrow>
          if \<not> present then Inl (ValueError no_data)
          else (case py_get response ''data'' (JArr []) of
             Inl err \<Rightarrow> Inl err
           | Inr d \<Rightarrow>
               (case py_iter d of
                  Inl err \<Rightarrow> Inl err
                | Inr items \<Rightarrow>
                    (case py_get response ''continuationToken'' JNull of
                       Inl err \<Rightarrow> Inl err
                     | Inr next_token \<Rightarrow> Inr (all_proofs @ items, next_token))))))"

text \<open>The \<open>while True\<close> loop. Nothing bounds the number of iterations, so the loop is a
  partial function: \<open>None\<close> stands for a run that never ends.\<close>

partial_function (option) get_proof_metadata_collection_loop ::
  "'w network \<Rightarrow> json \<Rightarrow> json \<Rightarrow> json \<Rightarrow> json \<Rightarrow> json \<Rightarrow> 'w client \<Rightarrow> json list \<Rightarrow> json
    \<Rightarrow> ((exn + json list) \<times> 'w client) option" where
  "get_proof_metadata_collection_loop net limit sort_by sort_direction object_type object_id
      s all_proofs next_token =
    (case get net s ProofAPI_BASE_URL ''/''
            (page_params limit sort_by sort_direction object_type object_id next_token) False of
       (response, s1) \<Rightarrow>
         (case get_proof_metadata_collection_page all_proofs response of
            Inl err \<Rightarrow> Some (Inl err, s1)
          | Inr (all_proofs1, next_token1) \<Rightarrow>
              if \<not> py_truthy next_token1 then Some (Inr all_proofs1, s1)
              else get_proof_metadata_collection_loop net limit sort_by sort_direction
                     object_type object_id s1 all_proofs1 next_token1))"

definition get_proof_metadata_collection ::
  "'w network \<Rightarrow> 'w client \<Rightarrow> json \<Rightarrow> json \<Rightarrow> json \<Rightarrow> json \<Rightarrow> json \<Rightarrow> bool
    \<Rightarrow> ((exn + json) \<times> 'w client) option" where
  "get_proof_metadata_collection net s limit sort_by sort_direction object_type object_id raw =
    (case get_proof_metadata_collection_loop net limit sort_by sort_direction object_type
            object_id s [] JNull of
       None \<Rightarrow> None
     | Some (Inl err, s1) \<Rightarrow> Some (Inl err, s1)
     | Some (Inr all_proofs, s1) \<Rightarrow>
         if raw then Some (Inr (JArr all_proofs), s1) else Some (Inr (JArr all_proofs), s1))"

subsection \<open>\<open>add_proof\<close>\<close>

text \<open>\<open>open(file_path, 'rb')\<close> is a parameter: the contents of the file, or \<open>None\<close> when
  the file cannot be opened and the call raises an \<open>OSError\<close>.\<close>

definition add_proof ::
  "'w network \<Rightarrow> (string \<Rightarrow> string option) \<Rightarrow> 'w client \<Rightarrow> string \<Rightarrow> json \<Rightarrow> json \<Rightarrow> bool
    \<Rightarrow> (exn + json) \<times> 'w client" where
  "add_proof net open_rb s file_path object_id object_type raw =
    (case open_rb file_path of
       None \<Rightarrow> (Inl OSError, s)
     | Some file \<Rightarrow>
         (let files = Some [(''file'', file)];
              data = (if py_truthy object_id \<and> py_truthy object_type
                      then JObj [(''objectId'', object_id), (''objectType'', object_type)]
                      else JObj [])
          in case post net s ProofAPI_BASE_URL ''/'' data files raw of
               (r, s1) \<Rightarrow> (Inr r, s1)))"

subsection \<open>\<open>get_proof_by_label\<close>\<close>

text \<open>\<open>re.search(label_name, name, re.IGNORECASE)\<close> is a parameter \<open>re_search\<close>: whether the
  pattern matches somewhere in the value, or the exception the call raises.
  The generator expression under \<open>next(..., None)\<close> walks the summaries up to the first
  label that matches.\<close>

fun first_matching_label ::
  "(string \<Rightarrow> json \<Rightarrow> exn + bool) \<Rightarrow> string \<Rightarrow> json list \<Rightarrow> exn + json" where
  "first_matching_label re_search label_name [] = Inr JNull"
| "first_matching_label re_search label_name (label # labels) =
    (case py_get label ''name'' (JStr []) of
       Inl err \<Rightarrow> Inl err
     | Inr name \<Rightarrow>
         (case re_search label_name name of
            Inl err \<Rightarrow> Inl err
          | Inr found \<Rightarrow>
              if found then Inr label
              else first_matching_label re_search label_name labels))"

text \<open>The part of \<open>get_proof_by_label\<close> before its loop: the id of the matching label.\<close>

definition matching_label_id ::
  "'w network \<Rightarrow> (string \<Rightarrow> json \<Rightarrow> exn + bool) \<Rightarrow> 'w client \<Rightarrow> string
    \<Rightarrow> (exn + json) \<times> 'w client" where
  "matching_label_id net re_search s label_name =
    (case get_label_summaries net s JNull JNull False of
       (label_summaries, s1) \<Rightarrow>
         (case py_iter label_summaries of
            Inl err \<Rightarrow> (Inl err, s1)
          | Inr labels \<Rightarrow>
              (case first_matching_label re_search label_name labels of
                 Inl err \<Rightarrow> (Inl err, s1)
               | Inr matching_label \<Rightarrow>
                   if \<not> py_truthy matching_label
                   then (Inl (ValueError (''No label found with the name: '' @ label_name)), s1)
                   else (py_get matching_label ''id'' JNull, s1))))"

definition get_proof_by_label_page ::
  "string \<Rightarrow> json list \<Rightarrow> json \<Rightarrow> exn + json list \<times> json" where
  "get_proof_by_label_page label_name all_proofs response =
    (if response = JNull
     then Inl (PermissionError (''Access to the label '' @ [CHR 0x27] @ label_name @ [CHR 0x27]
                 @ '' is forbidden. Please ensure you have joined the label.''))
     else (case py_in ''data'' response of
        Inl err \<Rightarrow> Inl err
      | Inr present \<Rightarrow>
          if \<not> present then Inl (ValueError no_data)
          else (case py_get response ''data'' (JArr []) of
             Inl err \<Rightarrow> Inl err
           | Inr d \<Rightarrow>
               (case py_iter d of
                  Inl err \<Rightarrow> Inl err
                | Inr items \<Rightarrow>
                    (case py_get response ''continuationToken'' JNull of
                       Inl err \<Rightarrow> Inl err
                     | Inr next_token \<Rightarrow> Inr (all_proofs @ items, next_token))))))"

text \<open>The loop hands back the accumulator together with the last response, which is what
  the final \<open>return\<close> chooses between.\<close>

partial_function (option) get_proof_by_label_loop ::
  "'w network \<Rightarrow> string \<Rightarrow> json \<Rightarrow> json \<Rightarrow> json \<Rightarrow> json \<Rightarrow> 'w client \<Rightarrow> json list \<Rightarrow> json
    \<Rightarrow> ((exn + json list \<times> json) \<times> 'w client) option" where
  "get_proof_by_label_loop net label_name limit sort_by sort_direction label_id
      s all_proofs next_token =
    (case get net s ProofAPI_BASE_URL ''/''
            (page_params limit sort_by sort_direction (JStr ''label'') label_id next_token)
            False of
       (response, s1) \<Rightarrow>
         (case get_proof_by_label_page label_name all_proofs response of
            Inl err \<Rightarrow> Some (Inl err, s1)
          | Inr (all_proofs1, next_token1) \<Rightarrow>
              if \<not> py_truthy next_token1 then Some (Inr (all_proofs1, response), s1)
              else get_proof_by_label_loop net label_name limit sort_by sort_direction
                     label_id s1 all_proofs1 next_token1))"

definition get_proof_by_label ::
  "'w network \<Rightarrow> (string \<Rightarrow> json \<Rightarrow> exn + bool) \<Rightarrow> 'w client \<Rightarrow> string \<Rightarrow> json \<Rightarrow> json \<Rightarrow> json
    \<Rightarrow> bool \<Rightarrow> ((exn + json) \<times> 'w client) option" where
  "get_proof_by_label net re_search s label_name limit sort_by sort_direction raw =
    (case matching_label_id net re_search s label_name of
       (Inl err, s1) \<Rightarrow> Some (Inl err, s1)
     | (Inr label_id, s1) \<Rightarrow>
         (case get_proof_by_label_loop net label_name limit sort_by sort_direction label_id
                 s1 [] JNull of
            None \<Rightarrow> None
          | Some (Inl err, s2) \<Rightarrow> Some (Inl err, s2)
          | Some (Inr (all_proofs, response), s2) \<Rightarrow>
              Some (Inr (if \<not> raw then JArr all_proofs else response), s2)))"

section \<open>The tasks API (\<open>tasks_api.py\<close>)\<close>

definition TasksAPI_BASE_URL :: string where
  "TasksAPI_BASE_URL = ''https://api.hyperproof.app/v1/tasks''"

text \<open>Attribute lookup on the client object, \<open>self.client.<name>\<close>: the three attributes that
  \<open>__init__\<close> sets and the methods that the class body of \<open>APIClient\<close> defines. Any other
  name raises an \<open>AttributeError\<close>. (The double-underscore names that every Python object
  has are left out.)\<close>

datatype attribute =
    Value json
  | Method_authenticate
  | Method_get_headers
  | Method_get
  | Method_post
  | Method_put
  | Method_patch
  | Method_handle_response
  | Method_parse_json

definition getattr :: "'w client \<Rightarrow> string \<Rightarrow> exn + attribute" where
  "getattr s name =
    (if name = ''client_id'' then Inr (Value (client_id s))
     else if name = ''client_secret'' then Inr (Value (client_secret s))
     else if name = ''access_token'' then Inr (Value (access_token s))
     else if name = ''_authenticate'' then Inr Method_authenticate
     else if name = ''_get_headers'' then Inr Method_get_headers
     else if name = ''get'' then Inr Method_get
     else if name = ''post'' then Inr Method_post
     else if name = ''put'' then Inr Method_put
     else if name = ''patch'' then Inr Method_patch
     else if name = ''_handle_response'' then Inr Method_handle_response
     else if name = ''_parse_json'' then Inr Method_parse_json
     else Inl (AttributeError name))"

text \<open>The call \<open>attr(base_url, endpoint, raw=raw)\<close>: the verbs take it, with their other
  parameters at the defaults; a plain value is not callable and the remaining methods
  have no such signature, which is a \<open>TypeError\<close>.\<close>

fun call_attribute ::
  "'w network \<Rightarrow> 'w client \<Rightarrow> attribute \<Rightarrow> string \<Rightarrow> string \<Rightarrow> bool
    \<Rightarrow> (exn + json) \<times> 'w client" where
  "call_attribute net s Method_get base_url endpoint raw =
    (case get net s base_url endpoint JNull raw of (r, s1) \<Rightarrow> (Inr r, s1))"
| "call_attribute net s Method_post base_url endpoint raw =
    (case post net s base_url endpoint JNull None raw of (r, s1) \<Rightarrow> (Inr r, s1))"
| "call_attribute net s Method_put base_url endpoint raw =
    (case put net s base_url endpoint JNull raw of (r, s1) \<Rightarrow> (Inr r, s1))"
| "call_attribute net s Method_patch base_url endpoint raw =
    (case patch net s base_url endpoint JNull raw of (r, s1) \<Rightarrow> (Inr r, s1))"
| "call_attribute net s (Value v) base_url endpoint raw = (Inl TypeError, s)"
| "call_attribute net s Method_authenticate base_url endpoint raw = (Inl TypeError, s)"
| "call_attribute net s Method_get_headers base_url endpoint raw = (Inl TypeError, s)"
| "call_attribute net s Method_handle_response base_url endpoint raw = (Inl TypeError, s)"
| "call_attribute net s Method_parse_json base_url endpoint raw = (Inl TypeError, s)"

definition delete_task_comment ::
  "'w network \<Rightarrow> 'w client \<Rightarrow> json \<Rightarrow> json \<Rightarrow> bool \<Rightarrow> (exn + json) \<times> 'w client" where
  "delete_task_comment net s task_id comment_id raw =
    (case getattr s ''delete'' of
       Inl err \<Rightarrow> (Inl err, s)
     | Inr attr \<Rightarrow>
         call_attribute net s attr TasksAPI_BASE_URL
           (''/'' @ py_str task_id @ ''/comments/'' @ py_str comment_id) raw)"

section \<open>Vocabulary of the properties\<close>

text \<open>The requests handed to the transport between two states of the client.\<close>

definition new_requests :: "'w client \<Rightarrow> 'w client \<Rightarrow> request list" where
  "new_requests s s1 = drop (length (sent s)) (sent s1)"

text \<open>The number of GET requests issued so far.\<close>

definition fetches :: "'w client \<Rightarrow> nat" where
  "fetches s = length (filter (\<lambda>r. req_method r = GET) (sent s))"

text \<open>Modelled from the spec: the encoding of \<open>params\<close> into the query string is done by the
  \<open>requests\<close> library, which is not part of the sources; the spec has the query
  parameters be a mapping whose nil-valued entries are dropped before transmission,
  the other entries being transmitted.\<close>

fun query_entries :: "json option \<Rightarrow> (string \<times> json) list" where
  "query_entries (Some (JObj kvs)) = filter (\<lambda>kv. snd kv \<noteq> JNull) kvs"
| "query_entries _ = []"

text \<open>The field names that a request carries in its query, form, JSON body or files.\<close>

fun json_keys :: "json option \<Rightarrow> string set" where
  "json_keys (Some (JObj kvs)) = fst ` set kvs"
| "json_keys _ = {}"

definition carries_field :: "string \<Rightarrow> request \<Rightarrow> bool" where
  "carries_field k r =
    (k \<in> json_keys (req_params r) \<union> json_keys (req_data r) \<union> json_keys (req_json r)
         \<union> (case req_files r of None \<Rightarrow> {} | Some fs \<Rightarrow> fst ` set fs))"

text \<open>A page: a mapping whose \<open>data\<close> field is an array. Its records, and its continuation
  field (\<open>None\<close> when the field is missing).\<close>

fun is_page :: "json \<Rightarrow> bool" where
  "is_page (JObj kvs) = (case map_of kvs ''data'' of Some (JArr xs) \<Rightarrow> True | _ \<Rightarrow> False)"
| "is_page _ = False"

fun records :: "json \<Rightarrow> json list" where
  "records (JObj kvs) = (case map_of kvs ''data'' of Some (JArr xs) \<Rightarrow> xs | _ \<Rightarrow> [])"
| "records _ = []"

fun continuation :: "json \<Rightarrow> json" where
  "continuation (JObj kvs) =
    (case map_of kvs ''continuationToken'' of Some t \<Rightarrow> t | None \<Rightarrow> JNull)"
| "continuation _ = JNull"

text \<open>A fetch operation, started in state \<open>s\<close> with token \<open>tok\<close> and re-invoked with each
  page's continuation token, returns the given pages one after the other; and the state
  after these fetches.\<close>

fun serves :: "('s \<Rightarrow> json \<Rightarrow> json \<times> 's) \<Rightarrow> 's \<Rightarrow> json \<Rightarrow> json list \<Rightarrow> bool" where
  "serves fetch s tok [] = True"
| "serves fetch s tok (p # ps) =
    (fst (fetch s tok) = p \<and> serves fetch (snd (fetch s tok)) (continuation p) ps)"

fun after :: "('s \<Rightarrow> json \<Rightarrow> json \<times> 's) \<Rightarrow> 's \<Rightarrow> json \<Rightarrow> json list \<Rightarrow> 's" where
  "after fetch s tok [] = s"
| "after fetch s tok (p # ps) = after fetch (snd (fetch s tok)) (continuation p) ps"

text \<open>The fetch operations of the two loops: the \<open>self.client.get\<close> call of an iteration.\<close>

definition metadata_fetch ::
  "'w network \<Rightarrow> json \<Rightarrow> json \<Rightarrow> json \<Rightarrow> json \<Rightarrow> json \<Rightarrow> 'w client \<Rightarrow> json \<Rightarrow> json \<times> 'w client" where
  "metadata_fetch net limit sort_by sort_direction object_type object_id s tok =
    get net s ProofAPI_BASE_URL ''/''
      (page_params limit sort_by sort_direction object_type object_id tok) False"

definition label_fetch ::
  "'w network \<Rightarrow> json \<Rightarrow> json \<Rightarrow> json \<Rightarrow> json \<Rightarrow> 'w client \<Rightarrow> json \<Rightarrow> json \<times> 'w client" where
  "label_fetch net limit sort_by sort_direction label_id s tok =
    get net s ProofAPI_BASE_URL ''/''
      (page_params limit sort_by sort_direction (JStr ''label'') label_id tok) False"

section \<open>Example worlds\<close>

text \<open>A network that answers from a script, one outcome per request, and refuses the
  connection once the script is used up.\<close>

fun scripted :: "outcome list network" where
  "scripted [] r = (Raised ConnectionError, [])"
| "scripted (out # outs) r = (out, outs)"

definition json_reply :: "json \<Rightarrow> outcome" where
  "json_reply v =
    Responded \<lparr>status_code = 200, content_type = Some ''application/json; charset=utf-8'',
               body_text = ''(body)'', json_body = Some v\<rparr>"

definition status_reply :: "int \<Rightarrow> outcome" where
  "status_reply n =
    Responded \<lparr>status_code = n, content_type = Some ''text/plain'',
               body_text = ''(body)'', json_body = None\<rparr>"

definition client0 :: "json \<Rightarrow> 'w \<Rightarrow> 'w client" where
  "client0 tok w =
    \<lparr>client_id = JStr ''id'', client_secret = JStr ''secret'', access_token = tok,
     sent = [], world = w\<rparr>"

definition page1 :: json where
  "page1 = JObj [(''data'', JArr [JInt 1, JInt 2]), (''continuationToken'', JStr ''abc'')]"

definition page2 :: json where
  "page2 = JObj [(''data'', JArr [JInt 3])]"

text \<open>A stand-in for \<open>re.search\<close> on patterns without special characters: the pattern
  occurs in the string; a value that is not a string is a \<open>TypeError\<close>.\<close>

fun substring_search :: "string \<Rightarrow> json \<Rightarrow> exn + bool" where
  "substring_search pat (JStr s) = Inr (sublist pat s)"
| "substring_search pat v = Inl TypeError"

definition label_list :: json where
  "label_list = JArr [JObj [(''id'', JStr ''L1''), (''name'', JStr ''Access reviews'')],
                      JObj [(''id'', JStr ''L2''), (''name'', JStr ''Backups'')]]"

section \<open>Evaluation and bookkeeping lemmas\<close>

lemmas eval_client = get_def post_def get_headers_def authenticate_def authenticate_try_def
  token_request_def perform_def handle_response_def raise_for_status_def parse_json_def
  sublist_code json_reply_def status_reply_def client0_def page_params_def

lemma perform_sent: "perform net s r = (out, s1) \<Longrightarrow> sent s1 = sent s @ [r]"
  by (auto simp: perform_def split: prod.splits)

lemma authenticate_sent: "sent (snd (authenticate net s)) = sent s @ [token_request s]"
  by (auto simp: authenticate_def authenticate_try_def perform_def
           split: outcome.splits prod.splits sum.splits)

lemma get_headers_sent:
  "sent (snd (get_headers net s)) =
     sent s @ (if py_truthy (access_token s) then [] else [token_request s])"
proof (cases "py_truthy (access_token s)")
  case True
  then show ?thesis by (simp add: get_headers_def)
next
  case False
  then show ?thesis
    using authenticate_sent [of net s]
    by (cases "authenticate net s") (auto simp: get_headers_def split: sum.splits)
qed

lemma get_headers_fetches: "get_headers net s = (r, s1) \<Longrightarrow> fetches s1 = fetches s"
  using get_headers_sent [of net s] by (simp add: fetches_def token_request_def)

lemma get_fetches:
  assumes "fst (get net s b e p raw) \<noteq> JNull"
  shows "fetches (snd (get net s b e p raw)) = Suc (fetches s)"
proof (cases "get_headers net s")
  case (Pair r s1)
  note hs = get_headers_fetches [OF Pair]
  show ?thesis
  proof (cases r)
    case (Inl err)
    with Pair assms show ?thesis by (simp add: get_def)
  next
    case (Inr h)
    let ?rq = "\<lparr>req_method = GET, req_url = b @ e, req_headers = Some h, req_params = Some p,
                req_data = None, req_json = None, req_files = None\<rparr>"
    obtain out s2 where pf: "perform net s1 ?rq = (out, s2)" by (cases "perform net s1 ?rq")
    from perform_sent [OF pf] hs have "fetches s2 = Suc (fetches s)" by (simp add: fetches_def)
    with Pair Inr pf show ?thesis by (cases out) (simp_all add: get_def)
  qed
qed

lemma after_fetches:
  "serves (\<lambda>s tok. get net s b e (mk tok) raw) s tok pages \<Longrightarrow> \<forall>p\<in>set pages. is_page p \<Longrightarrow>
   fetches (after (\<lambda>s tok. get net s b e (mk tok) raw) s tok pages) = fetches s + length pages"
proof (induction pages arbitrary: s tok)
  case Nil
  then show ?case by simp
next
  case (Cons p ps)
  from Cons.prems have "fst (get net s b e (mk tok) raw) \<noteq> JNull" by auto
  from get_fetches [OF this] Cons show ?case by simp
qed

section \<open>Response normalisation\<close>

text \<open>
  Claim C8. A response with status 200 whose Content-Type contains \<open>application/json\<close>
  and whose body does not parse as JSON is normalised, with the raw flag off, to the empty
  mapping; a response with a 4xx or 5xx status is normalised to \<open>None\<close>; and the two
  results differ, so a caller can tell the two failures apart.
\<close>

theorem malformed_json_is_empty_not_absent:
  "(status_code r = 200 \<and> content_type r = Some ct \<and> sublist ''application/json'' ct
      \<and> json_body r = None
      \<longrightarrow> handle_response r False = JObj [])
   \<and> (400 \<le> status_code r' \<and> status_code r' < 600 \<longrightarrow> handle_response r' raw = JNull)
   \<and> JObj [] \<noteq> JNull"
  by (simp add: handle_response_def raise_for_status_def parse_json_def)

theorem malformed_json_is_empty_not_absent_witness:
  "handle_response \<lparr>status_code = 200, content_type = Some ''application/json'',
       body_text = ''{oops'', json_body = None\<rparr> False = JObj []
   \<and> handle_response \<lparr>status_code = 404, content_type = Some ''text/html'',
       body_text = ''not found'', json_body = None\<rparr> False = JNull"
  using malformed_json_is_empty_not_absent
    [of "\<lparr>status_code = 200, content_type = Some ''application/json'',
           body_text = ''{oops'', json_body = None\<rparr>"
        "''application/json''"
        "\<lparr>status_code = 404, content_type = Some ''text/html'',
           body_text = ''not found'', json_body = None\<rparr>"
        False]
  by (simp add: sublist_code)

section \<open>Authentication and headers\<close>

text \<open>
  Claim C5. When the token endpoint answers with a status other than 200, or the request
  fails at the transport level (a connection error, a timeout, a generic request exception,
  or an HTTP error, the four classes the handler names), \<open>_authenticate\<close> returns normally
  and leaves the token slot at \<open>None\<close>; the only other effects are the request sent and
  the change of the outside world.
\<close>

theorem authenticate_failure_is_silent:
  assumes "net (world s) (token_request s) = (out, w)"
    and "case out of
           Responded r \<Rightarrow> status_code r \<noteq> 200
         | Raised e \<Rightarrow> e \<in> {ConnectionError, Timeout, RequestException, HTTPError}"
  shows "authenticate net s =
     (Inr (), s\<lparr>sent := sent s @ [token_request s], world := w, access_token := JNull\<rparr>)"
  using assms
  by (auto simp: authenticate_def authenticate_try_def perform_def split: outcome.splits)

theorem authenticate_failure_is_silent_witness:
  "authenticate scripted (client0 (JStr ''old'') [status_reply 401]) =
     (Inr (), (client0 JNull [])\<lparr>sent := [token_request (client0 (JStr ''old'') [status_reply 401])]\<rparr>)
   \<and> authenticate scripted (client0 (JStr ''old'') [Raised Timeout]) =
     (Inr (), (client0 JNull [])\<lparr>sent := [token_request (client0 (JStr ''old'') [Raised Timeout])]\<rparr>)"
  using authenticate_failure_is_silent
      [of scripted "client0 (JStr ''old'') [status_reply 401]" "status_reply 401" "[]"]
    authenticate_failure_is_silent
      [of scripted "client0 (JStr ''old'') [Raised Timeout]" "Raised Timeout" "[]"]
  by (simp add: client0_def status_reply_def token_request_def)

text \<open>
  Claim C4, as amended. \<open>_get_headers\<close> makes an authentication attempt exactly when the
  token slot is false in Python's sense: \<open>None\<close>, or an empty value such as the empty
  string. It then makes exactly one attempt, and that is the only request it sends. With
  the slot at \<open>None\<close> there is one attempt; with a non-empty token string there is none.
\<close>

theorem get_headers_attempts:
  "new_requests s (snd (get_headers net s)) =
      (if py_truthy (access_token s) then [] else [token_request s])
   \<and> (access_token s = JNull \<longrightarrow> new_requests s (snd (get_headers net s)) = [token_request s])
   \<and> (access_token s = JStr t \<and> t \<noteq> [] \<longrightarrow> new_requests s (snd (get_headers net s)) = [])"
  using get_headers_sent [of net s] by (auto simp: new_requests_def)

theorem get_headers_attempts_witness:
  "new_requests (client0 JNull []) (snd (get_headers scripted (client0 JNull [])))
     = [token_request (client0 JNull ([] :: outcome list))]
   \<and> new_requests (client0 (JStr ''tok'') [])
        (snd (get_headers scripted (client0 (JStr ''tok'') []))) = []"
  using get_headers_attempts [of "client0 JNull []" scripted "''x''"]
     get_headers_attempts [of "client0 (JStr ''tok'') []" scripted "''tok''"]
  by (simp add: client0_def)

text \<open>
  Claim C4 as stated fails: a slot that holds the empty string is not absent, and header
  construction still makes an authentication attempt.
\<close>

theorem empty_token_reauthenticates:
  "access_token (client0 (JStr []) []) \<noteq> JNull
   \<and> new_requests (client0 (JStr []) []) (snd (get_headers scripted (client0 (JStr []) [])))
       = [token_request (client0 (JStr []) ([] :: outcome list))]"
  by (simp add: eval_client new_requests_def)

text \<open>
  Claim C6, as amended. Whenever \<open>_get_headers\<close> returns, the result is the mapping with
  Content-Type \<open>application/json\<close> and with Authorization \<open>Bearer\<close>, a space, and the
  slot formatted by \<open>str\<close>: the token itself when the slot holds a string, and the text
  \<open>None\<close> when the slot is absent (as after a failed re-authentication).
\<close>

theorem get_headers_value:
  assumes "get_headers net s = (Inr headers, s1)"
  shows "headers = [(''Authorization'', ''Bearer '' @ py_str (access_token s1)),
                    (''Content-Type'', ''application/json'')]
     \<and> (access_token s1 = JStr t \<longrightarrow> map_of headers ''Authorization'' = Some (''Bearer '' @ t))
     \<and> (access_token s1 = JNull \<longrightarrow> map_of headers ''Authorization'' = Some ''Bearer None'')"
  using assms by (auto simp: get_headers_def split: prod.splits sum.splits if_splits)

theorem get_headers_value_witness:
  "get_headers scripted (client0 (JStr ''tok123'') [])
     = (Inr [(''Authorization'', ''Bearer tok123''), (''Content-Type'', ''application/json'')],
        client0 (JStr ''tok123'') [])
   \<and> fst (get_headers scripted (client0 JNull [Raised Timeout]))
     = Inr [(''Authorization'', ''Bearer None''), (''Content-Type'', ''application/json'')]"
  using get_headers_value [of scripted "client0 (JStr ''tok123'') []"
      "[(''Authorization'', ''Bearer tok123''), (''Content-Type'', ''application/json'')]"
      "client0 (JStr ''tok123'') []" "''tok123''"]
    get_headers_value [of scripted "client0 JNull [Raised Timeout]"
      "[(''Authorization'', ''Bearer None''), (''Content-Type'', ''application/json'')]"
      "snd (get_headers scripted (client0 JNull [Raised Timeout]))" "''x''"]
  by (simp add: eval_client)

text \<open>
  Claim C6 as stated fails: after a failed re-authentication the slot is absent and the
  bearer value is the text \<open>None\<close>, not the empty string.
\<close>

theorem failed_reauthentication_sends_None:
  "fst (get_headers scripted (client0 JNull [status_reply 401]))
     = Inr [(''Authorization'', ''Bearer None''), (''Content-Type'', ''application/json'')]
   \<and> access_token (snd (get_headers scripted (client0 JNull [status_reply 401]))) = JNull
   \<and> ''Bearer None'' \<noteq> ''Bearer '' @ []"
  by (simp add: eval_client)

section \<open>Pagination\<close>

lemma is_page_step:
  "is_page p \<Longrightarrow> get_proof_metadata_collection_page acc p = Inr (acc @ records p, continuation p)"
  by (cases p) (auto simp: get_proof_metadata_collection_page_def map_of_eq_None_iff
        split: option.splits json.splits dest: map_of_SomeD intro: rev_image_eqI)

lemma metadata_loop_pages:
  "pages \<noteq> [] \<Longrightarrow> serves (metadata_fetch net l sb sd ot oi) s tok pages \<Longrightarrow>
   \<forall>p\<in>set pages. is_page p \<Longrightarrow>
   \<forall>p\<in>set (butlast pages). py_truthy (continuation p) \<Longrightarrow>
   \<not> py_truthy (continuation (last pages)) \<Longrightarrow>
   get_proof_metadata_collection_loop net l sb sd ot oi s acc tok =
     Some (Inr (acc @ concat (map records pages)),
           after (metadata_fetch net l sb sd ot oi) s tok pages)"
proof (induction pages arbitrary: s acc tok)
  case Nil
  then show ?case by simp
next
  case (Cons p ps)
  obtain r s1 where f: "metadata_fetch net l sb sd ot oi s tok = (r, s1)"
    by (cases "metadata_fetch net l sb sd ot oi s tok")
  with Cons.prems have rp: "r = p" by simp
  from Cons.prems have pg: "is_page p" by simp
  show ?case
  proof (cases "ps = []")
    case True
    with Cons.prems f rp pg show ?thesis
      by (subst get_proof_metadata_collection_loop.simps)
         (simp add: is_page_step metadata_fetch_def[symmetric])
  next
    case False
    with Cons.prems have more: "py_truthy (continuation p)" by simp
    from Cons.prems False f
    have sv: "serves (metadata_fetch net l sb sd ot oi) s1 (continuation p) ps" by simp
    from Cons.prems False
    have a: "\<forall>p\<in>set ps. is_page p" "\<forall>p\<in>set (butlast ps). py_truthy (continuation p)"
       "\<not> py_truthy (continuation (last ps))" by simp_all
    from Cons.IH[OF False sv a] f rp pg more show ?thesis
      by (subst get_proof_metadata_collection_loop.simps)
         (simp add: is_page_step metadata_fetch_def[symmetric])
  qed
qed

text \<open>
  Claim C2. Let the fetch operation of \<open>get_proof_metadata_collection\<close>, started without a
  token and re-invoked with each page's continuation token, return the pages \<open>P1..Pn\<close>
  (\<open>n \<ge> 1\<close>), each a mapping with an array of records, where every page but the last carries
  a non-empty continuation token and the last one carries none or an empty one. Then the
  loop ends, returns the records of \<open>P1\<close> followed by those of \<open>P2\<close>, and so on up to \<open>Pn\<close>,
  in their order, and has issued exactly \<open>n\<close> GET requests.
\<close>

theorem pagination_concatenates:
  assumes "pages \<noteq> []"
    and "serves (metadata_fetch net limit sort_by sort_direction object_type object_id) s JNull pages"
    and "\<forall>p\<in>set pages. is_page p"
    and "\<forall>p\<in>set (butlast pages). py_truthy (continuation p)"
    and "\<not> py_truthy (continuation (last pages))"
  shows "\<exists>s1. get_proof_metadata_collection net s limit sort_by sort_direction object_type
                 object_id raw
               = Some (Inr (JArr (concat (map records pages))), s1)
          \<and> fetches s1 = fetches s + length pages"
proof -
  let ?F = "metadata_fetch net limit sort_by sort_direction object_type object_id"
  have F: "?F = (\<lambda>s tok. get net s ProofAPI_BASE_URL ''/''
                   (page_params limit sort_by sort_direction object_type object_id tok) False)"
    by (intro ext) (simp add: metadata_fetch_def)
  have "fetches (after ?F s JNull pages) = fetches s + length pages"
    unfolding F using assms(2,3) unfolding F by (rule after_fetches)
  moreover have "get_proof_metadata_collection net s limit sort_by sort_direction object_type
      object_id raw = Some (Inr (JArr (concat (map records pages))), after ?F s JNull pages)"
    using metadata_loop_pages [OF assms, of "[]"] by (simp add: get_proof_metadata_collection_def)
  ultimately show ?thesis by blast
qed

theorem pagination_concatenates_witness:
  "\<exists>s1. get_proof_metadata_collection scripted
           (client0 (JStr ''tok'') [json_reply page1, json_reply page2])
           (JInt 500) (JStr ''uploadedOn'') (JStr ''desc'') JNull JNull False
         = Some (Inr (JArr [JInt 1, JInt 2, JInt 3]), s1) \<and> fetches s1 = 2"
  using pagination_concatenates
    [of "[page1, page2]" scripted "JInt 500" "JStr ''uploadedOn''" "JStr ''desc''" JNull JNull
        "client0 (JStr ''tok'') [json_reply page1, json_reply page2]" False]
  by (simp add: metadata_fetch_def eval_client page1_def page2_def fetches_def numeral_2_eq_2)
lemma get_fetches_le: "fetches (snd (get net s b e p raw)) \<le> Suc (fetches s)"
proof (cases "get_headers net s")
  case (Pair r s1)
  note hs = get_headers_fetches [OF Pair]
  show ?thesis
  proof (cases r)
    case (Inl err)
    with Pair hs show ?thesis by (simp add: get_def)
  next
    case (Inr h)
    let ?rq = "\<lparr>req_method = GET, req_url = b @ e, req_headers = Some h, req_params = Some p,
                req_data = None, req_json = None, req_files = None\<rparr>"
    obtain out s2 where pf: "perform net s1 ?rq = (out, s2)" by (cases "perform net s1 ?rq")
    from perform_sent [OF pf] hs have "fetches s2 = Suc (fetches s)" by (simp add: fetches_def)
    with Pair Inr pf show ?thesis by (cases out) (simp_all add: get_def)
  qed
qed

lemma missing_data_step:
  "\<not> py_truthy response \<or> (\<exists>kvs. response = JObj kvs \<and> ''data'' \<notin> fst ` set kvs) \<Longrightarrow>
   get_proof_metadata_collection_page acc response = Inl (ValueError no_data)"
  by (auto simp: get_proof_metadata_collection_page_def)

lemma metadata_loop_error:
  assumes "get_proof_metadata_collection_page acc (fst (metadata_fetch net l sb sd ot oi s tok))
             = Inl err"
  shows "get_proof_metadata_collection_loop net l sb sd ot oi s acc tok =
           Some (Inl err, snd (metadata_fetch net l sb sd ot oi s tok))"
proof -
  obtain r s1 where f: "metadata_fetch net l sb sd ot oi s tok = (r, s1)"
    by (cases "metadata_fetch net l sb sd ot oi s tok")
  with assms show ?thesis
    by (subst get_proof_metadata_collection_loop.simps)
       (simp add: metadata_fetch_def[symmetric])
qed

text \<open>
  Claim C3, as amended. In an iteration of the loop of \<open>get_proof_metadata_collection\<close>:
  if the fetched envelope is \<open>None\<close>, or empty, or a mapping without a \<open>data\<close> field (the
  empty mapping included), the iteration raises the \<open>ValueError\<close>; if the envelope is a
  mapping whose \<open>data\<close> field is an array, the iteration does not raise and extends the
  accumulator. When an iteration raises, the loop ends with that error in the state
  reached right after that iteration's fetch, which issued at most one GET request: no
  further fetch is made.
\<close>

theorem page_integrity:
  "(response = JNull \<or> \<not> py_truthy response
      \<or> (\<exists>kvs. response = JObj kvs \<and> ''data'' \<notin> fst ` set kvs)
     \<longrightarrow> get_proof_metadata_collection_page all_proofs response = Inl (ValueError no_data))
   \<and> get_proof_metadata_collection_page all_proofs (JObj []) = Inl (ValueError no_data)
   \<and> (is_page response
     \<longrightarrow> get_proof_metadata_collection_page all_proofs response
           = Inr (all_proofs @ records response, continuation response))
   \<and> (get_proof_metadata_collection_page all_proofs
         (fst (metadata_fetch net limit sort_by sort_direction object_type object_id s tok))
        = Inl err
     \<longrightarrow> get_proof_metadata_collection_loop net limit sort_by sort_direction object_type
           object_id s all_proofs tok
          = Some (Inl err,
                  snd (metadata_fetch net limit sort_by sort_direction object_type object_id s tok))
        \<and> fetches (snd (metadata_fetch net limit sort_by sort_direction object_type object_id
                          s tok)) \<le> Suc (fetches s))"
proof (intro conjI impI)
  assume "response = JNull \<or> \<not> py_truthy response
      \<or> (\<exists>kvs. response = JObj kvs \<and> ''data'' \<notin> fst ` set kvs)"
  then have "\<not> py_truthy response \<or> (\<exists>kvs. response = JObj kvs \<and> ''data'' \<notin> fst ` set kvs)"
    by auto
  then show "get_proof_metadata_collection_page all_proofs response = Inl (ValueError no_data)"
    by (rule missing_data_step)
next
  show "get_proof_metadata_collection_page all_proofs (JObj []) = Inl (ValueError no_data)"
    by (simp add: get_proof_metadata_collection_page_def)
next
  assume "is_page response"
  then show "get_proof_metadata_collection_page all_proofs response
           = Inr (all_proofs @ records response, continuation response)"
    by (rule is_page_step)
next
  assume "get_proof_metadata_collection_page all_proofs
         (fst (metadata_fetch net limit sort_by sort_direction object_type object_id s tok))
        = Inl err"
  then show "get_proof_metadata_collection_loop net limit sort_by sort_direction object_type
           object_id s all_proofs tok
          = Some (Inl err,
                  snd (metadata_fetch net limit sort_by sort_direction object_type object_id s tok))"
    by (rule metadata_loop_error)
next
  show "fetches (snd (metadata_fetch net limit sort_by sort_direction object_type object_id
                          s tok)) \<le> Suc (fetches s)"
    by (simp add: metadata_fetch_def get_fetches_le)
qed

theorem page_integrity_witness:
  "get_proof_metadata_collection_page [] JNull = Inl (ValueError no_data)
   \<and> get_proof_metadata_collection_page [] (JObj [(''error'', JStr ''x'')]) = Inl (ValueError no_data)
   \<and> get_proof_metadata_collection_page [JInt 0] page1
       = Inr ([JInt 0, JInt 1, JInt 2], JStr ''abc'')
   \<and> get_proof_metadata_collection_loop scripted (JInt 500) (JStr ''uploadedOn'') (JStr ''desc'')
        JNull JNull (client0 (JStr ''tok'') [status_reply 403, json_reply page2]) [] JNull
       = Some (Inl (ValueError no_data),
               snd (metadata_fetch scripted (JInt 500) (JStr ''uploadedOn'') (JStr ''desc'')
                      JNull JNull (client0 (JStr ''tok'') [status_reply 403, json_reply page2]) JNull))
   \<and> world (snd (metadata_fetch scripted (JInt 500) (JStr ''uploadedOn'') (JStr ''desc'')
                      JNull JNull (client0 (JStr ''tok'') [status_reply 403, json_reply page2]) JNull))
       = [json_reply page2]"
  using page_integrity [where response = JNull and all_proofs = "[]" and net = scripted
      and limit = "JInt 500" and sort_by = "JStr ''uploadedOn''" and sort_direction = "JStr ''desc''"
      and object_type = JNull and object_id = JNull and tok = JNull
      and s = "client0 (JStr ''tok'') [status_reply 403, json_reply page2]"
      and err = "ValueError no_data"]
    page_integrity [where response = "JObj [(''error'', JStr ''x'')]" and all_proofs = "[]"]
    page_integrity [where response = page1 and all_proofs = "[JInt 0]"]
  by (simp add: metadata_fetch_def eval_client page1_def get_proof_metadata_collection_page_def)

text \<open>
  Claim C3 as stated fails: an envelope that is present and has the \<open>data\<close> field still
  makes the iteration raise when that field is not iterable, here \<open>null\<close>.
\<close>

theorem data_field_of_wrong_type_raises:
  "py_truthy (JObj [(''data'', JNull)])
   \<and> py_in ''data'' (JObj [(''data'', JNull)]) = Inr True
   \<and> get_proof_metadata_collection_page [] (JObj [(''data'', JNull)]) = Inl TypeError"
  by (simp add: get_proof_metadata_collection_page_def)

section \<open>Requests on the wire\<close>

lemma get_sent:
  "sent (snd (get net s b e p raw)) =
     sent (snd (get_headers net s)) @
       (case fst (get_headers net s) of
          Inl err \<Rightarrow> []
        | Inr h \<Rightarrow> [\<lparr>req_method = GET, req_url = b @ e, req_headers = Some h,
                      req_params = Some p, req_data = None, req_json = None,
                      req_files = None\<rparr>])"
proof (cases "get_headers net s")
  case (Pair r s1)
  show ?thesis
  proof (cases r)
    case (Inl err)
    with Pair show ?thesis by (simp add: get_def)
  next
    case (Inr h)
    let ?rq = "\<lparr>req_method = GET, req_url = b @ e, req_headers = Some h, req_params = Some p,
                req_data = None, req_json = None, req_files = None\<rparr>"
    obtain out s2 where pf: "perform net s1 ?rq = (out, s2)" by (cases "perform net s1 ?rq")
    from perform_sent [OF pf] Pair Inr pf show ?thesis by (cases out) (simp_all add: get_def)
  qed
qed

lemma post_sent:
  "sent (snd (post net s b e d files raw)) =
     sent (snd (get_headers net s)) @
       (case fst (get_headers net s) of
          Inl err \<Rightarrow> []
        | Inr h \<Rightarrow>
            [if files_truthy files
             then \<lparr>req_method = POST, req_url = b @ e, req_headers = Some h, req_params = None,
                   req_data = None, req_json = None, req_files = files\<rparr>
             else \<lparr>req_method = POST, req_url = b @ e, req_headers = Some h, req_params = None,
                   req_data = None, req_json = Some d, req_files = None\<rparr>])"
proof (cases "get_headers net s")
  case (Pair r s1)
  show ?thesis
  proof (cases r)
    case (Inl err)
    with Pair show ?thesis by (simp add: post_def)
  next
    case (Inr h)
    let ?rq = "if files_truthy files
             then \<lparr>req_method = POST, req_url = b @ e, req_headers = Some h, req_params = None,
                   req_data = None, req_json = None, req_files = files\<rparr>
             else \<lparr>req_method = POST, req_url = b @ e, req_headers = Some h, req_params = None,
                   req_data = None, req_json = Some d, req_files = None\<rparr>"
    obtain out s2 where pf: "perform net s1 ?rq = (out, s2)" by (cases "perform net s1 ?rq")
    from perform_sent [OF pf] Pair Inr pf show ?thesis by (cases out) (simp_all add: post_def)
  qed
qed

lemma new_requests_headers:
  "new_requests s (snd (get_headers net s)) =
     (if py_truthy (access_token s) then [] else [token_request s])"
  using get_headers_sent [of net s] by (simp add: new_requests_def)

lemma new_requests_get:
  "new_requests s (snd (get net s b e p raw)) =
     (if py_truthy (access_token s) then [] else [token_request s]) @
       (case fst (get_headers net s) of
          Inl err \<Rightarrow> []
        | Inr h \<Rightarrow> [\<lparr>req_method = GET, req_url = b @ e, req_headers = Some h,
                      req_params = Some p, req_data = None, req_json = None,
                      req_files = None\<rparr>])"
  by (simp add: new_requests_def get_sent get_headers_sent)

lemma new_requests_post:
  "new_requests s (snd (post net s b e d files raw)) =
     (if py_truthy (access_token s) then [] else [token_request s]) @
       (case fst (get_headers net s) of
          Inl err \<Rightarrow> []
        | Inr h \<Rightarrow>
            [if files_truthy files
             then \<lparr>req_method = POST, req_url = b @ e, req_headers = Some h, req_params = None,
                   req_data = None, req_json = None, req_files = files\<rparr>
             else \<lparr>req_method = POST, req_url = b @ e, req_headers = Some h, req_params = None,
                   req_data = None, req_json = Some d, req_files = None\<rparr>])"
  by (simp add: new_requests_def post_sent get_headers_sent)

text \<open>
  Claim C7. Let \<open>get\<close> be called with a mapping of query parameters. Every GET request it
  dispatches transmits exactly the entries whose value is not \<open>None\<close>: a parameter whose
  value is \<open>None\<close> does not occur in the query at all, under no value whatsoever, and each
  parameter with another value is transmitted with that value.
\<close>

theorem nil_params_omitted:
  assumes "distinct (map fst kvs)"
    and "r \<in> set (new_requests s (snd (get net s base_url endpoint (JObj kvs) raw)))"
    and "req_method r = GET"
  shows "query_entries (req_params r) = filter (\<lambda>kv. snd kv \<noteq> JNull) kvs
     \<and> (\<forall>k. (k, JNull) \<in> set kvs \<longrightarrow> k \<notin> fst ` set (query_entries (req_params r)))
     \<and> (\<forall>k v. (k, v) \<in> set kvs \<and> v \<noteq> JNull \<longrightarrow> (k, v) \<in> set (query_entries (req_params r)))"
proof -
  from assms(2,3) have "req_params r = Some (JObj kvs)"
    by (auto simp: new_requests_get token_request_def split: if_splits sum.splits)
  then have q: "query_entries (req_params r) = filter (\<lambda>kv. snd kv \<noteq> JNull) kvs" by simp
  have "k \<notin> fst ` set (filter (\<lambda>kv. snd kv \<noteq> JNull) kvs)" if "(k, JNull) \<in> set kvs" for k
  proof
    assume "k \<in> fst ` set (filter (\<lambda>kv. snd kv \<noteq> JNull) kvs)"
    then obtain v where "(k, v) \<in> set kvs" "v \<noteq> JNull" by auto
    with that assms(1) show False by (meson eq_key_imp_eq_value)
  qed
  with q show ?thesis by auto
qed

theorem nil_params_omitted_witness:
  "new_requests (client0 (JStr ''tok'') [json_reply page2])
     (snd (get scripted (client0 (JStr ''tok'') [json_reply page2]) ProofAPI_BASE_URL ''/''
             (page_params (JInt 500) (JStr ''uploadedOn'') (JStr ''desc'') JNull JNull JNull) False))
    = [\<lparr>req_method = GET, req_url = ProofAPI_BASE_URL @ ''/'',
         req_headers = Some [(''Authorization'', ''Bearer tok''), (''Content-Type'', ''application/json'')],
         req_params = Some (page_params (JInt 500) (JStr ''uploadedOn'') (JStr ''desc'') JNull JNull JNull),
         req_data = None, req_json = None, req_files = None\<rparr>]
   \<and> query_entries (Some (page_params (JInt 500) (JStr ''uploadedOn'') (JStr ''desc'') JNull JNull JNull))
    = [(''limit'', JInt 500), (''sortBy'', JStr ''uploadedOn''), (''sortDirection'', JStr ''desc'')]"
  using nil_params_omitted [of "[(''limit'', JInt 500), (''sortBy'', JStr ''uploadedOn''),
          (''sortDirection'', JStr ''desc''), (''objectType'', JNull), (''objectId'', JNull),
          (''nextToken'', JNull)]"
       "\<lparr>req_method = GET, req_url = ProofAPI_BASE_URL @ ''/'',
         req_headers = Some [(''Authorization'', ''Bearer tok''), (''Content-Type'', ''application/json'')],
         req_params = Some (page_params (JInt 500) (JStr ''uploadedOn'') (JStr ''desc'') JNull JNull JNull),
         req_data = None, req_json = None, req_files = None\<rparr>"
       "client0 (JStr ''tok'') [json_reply page2]" scripted ProofAPI_BASE_URL "''/''" False]
  by (simp add: eval_client new_requests_def)

section \<open>Uploads\<close>

lemma token_request_fields:
  "req_json (token_request s) = None"
  "\<not> carries_field ''objectId'' (token_request s)"
  "\<not> carries_field ''objectType'' (token_request s)"
  by (simp_all add: token_request_def carries_field_def)

text \<open>
  Claim C9. When \<open>post\<close> is called with a files payload, no request it sends has a JSON
  body, whatever data mapping was passed along, and the request it dispatches to the
  endpoint carries the files and nothing else. In particular no request sent by
  \<open>add_proof\<close> has a JSON body or carries an \<open>objectId\<close> or \<open>objectType\<close> field, also when
  both \<open>object_id\<close> and \<open>object_type\<close> are set.
\<close>

theorem files_replace_json_body:
  "(files_truthy files \<longrightarrow>
      (\<forall>r \<in> set (new_requests s (snd (post net s base_url endpoint data files raw))).
          req_json r = None)
      \<and> (\<forall>headers s1. get_headers net s = (Inr headers, s1) \<longrightarrow>
            sent (snd (post net s base_url endpoint data files raw)) =
              sent s1 @ [\<lparr>req_method = POST, req_url = base_url @ endpoint,
                           req_headers = Some headers, req_params = None, req_data = None,
                           req_json = None, req_files = files\<rparr>]))
   \<and> (\<forall>r \<in> set (new_requests s
                    (snd (add_proof net open_rb s file_path object_id object_type raw))).
          req_json r = None \<and> \<not> carries_field ''objectId'' r \<and> \<not> carries_field ''objectType'' r)"
proof (rule conjI)
  show "files_truthy files \<longrightarrow>
      (\<forall>r \<in> set (new_requests s (snd (post net s base_url endpoint data files raw))).
          req_json r = None)
      \<and> (\<forall>headers s1. get_headers net s = (Inr headers, s1) \<longrightarrow>
            sent (snd (post net s base_url endpoint data files raw)) =
              sent s1 @ [\<lparr>req_method = POST, req_url = base_url @ endpoint,
                           req_headers = Some headers, req_params = None, req_data = None,
                           req_json = None, req_files = files\<rparr>])"
    by (auto simp: new_requests_post post_sent token_request_fields
             split: if_splits sum.splits)
next
  show "\<forall>r \<in> set (new_requests s
                    (snd (add_proof net open_rb s file_path object_id object_type raw))).
          req_json r = None \<and> \<not> carries_field ''objectId'' r \<and> \<not> carries_field ''objectType'' r"
  proof (rule ballI)
    fix r
    assume r: "r \<in> set (new_requests s
                    (snd (add_proof net open_rb s file_path object_id object_type raw)))"
    show "req_json r = None \<and> \<not> carries_field ''objectId'' r
            \<and> \<not> carries_field ''objectType'' r"
    proof (cases "open_rb file_path")
      case None
      with r show ?thesis by (simp add: add_proof_def new_requests_def)
    next
      case (Some contents)
      define d where "d = (if py_truthy object_id \<and> py_truthy object_type
                then JObj [(''objectId'', object_id), (''objectType'', object_type)]
                else JObj [])"
      obtain x s1 where p: "post net s ProofAPI_BASE_URL ''/'' d (Some [(''file'', contents)]) raw
          = (x, s1)"
        by (cases "post net s ProofAPI_BASE_URL ''/'' d (Some [(''file'', contents)]) raw")
      with Some have "add_proof net open_rb s file_path object_id object_type raw = (Inr x, s1)"
        by (simp add: add_proof_def Let_def d_def split del: if_split)
      with r p have "r \<in> set (new_requests s
          (snd (post net s ProofAPI_BASE_URL ''/'' d (Some [(''file'', contents)]) raw)))"
        by simp
      then have "r = token_request s \<or>
          (\<exists>h. r = \<lparr>req_method = POST, req_url = ProofAPI_BASE_URL @ ''/'', req_headers = Some h,
                     req_params = None, req_data = None, req_json = None,
                     req_files = Some [(''file'', contents)]\<rparr>)"
        by (auto simp: new_requests_post split: if_splits sum.splits)
      then show ?thesis
      proof
        assume "r = token_request s"
        then show ?thesis by (simp add: token_request_fields)
      next
        assume "\<exists>h. r = \<lparr>req_method = POST, req_url = ProofAPI_BASE_URL @ ''/'',
                     req_headers = Some h, req_params = None, req_data = None, req_json = None,
                     req_files = Some [(''file'', contents)]\<rparr>"
        then show ?thesis by (auto simp: carries_field_def)
      qed
    qed
  qed
qed

theorem files_replace_json_body_witness:
  "sent (snd (add_proof scripted (\<lambda>p. Some ''%PDF'') (client0 (JStr ''tok'') [json_reply page2])
                ''report.pdf'' (JStr ''c-1'') (JStr ''control'') False))
    = [\<lparr>req_method = POST, req_url = ProofAPI_BASE_URL @ ''/'',
         req_headers = Some [(''Authorization'', ''Bearer tok''),
                             (''Content-Type'', ''application/json'')],
         req_params = None, req_data = None, req_json = None,
         req_files = Some [(''file'', ''%PDF'')]\<rparr>]"
  using files_replace_json_body [of "Some [(''file'', ''%PDF'')]"
      "client0 (JStr ''tok'') [json_reply page2]" scripted ProofAPI_BASE_URL "''/''"
      "JObj [(''objectId'', JStr ''c-1''), (''objectType'', JStr ''control'')]" False
      "\<lambda>p. Some ''%PDF''" "''report.pdf''" "JStr ''c-1''" "JStr ''control''"]
  by (simp add: add_proof_def eval_client)

section \<open>Proofs by label\<close>

lemma is_page_label_step:
  "is_page p \<Longrightarrow> get_proof_by_label_page ln acc p = Inr (acc @ records p, continuation p)"
  by (cases p) (auto simp: get_proof_by_label_page_def map_of_eq_None_iff
        split: option.splits json.splits dest: map_of_SomeD intro: rev_image_eqI)

lemma label_loop_pages:
  "pages \<noteq> [] \<Longrightarrow> serves (label_fetch net l sb sd lid) s tok pages \<Longrightarrow>
   \<forall>p\<in>set pages. is_page p \<Longrightarrow>
   \<forall>p\<in>set (butlast pages). py_truthy (continuation p) \<Longrightarrow>
   \<not> py_truthy (continuation (last pages)) \<Longrightarrow>
   get_proof_by_label_loop net ln l sb sd lid s acc tok =
     Some (Inr (acc @ concat (map records pages), last pages),
           after (label_fetch net l sb sd lid) s tok pages)"
proof (induction pages arbitrary: s acc tok)
  case Nil
  then show ?case by simp
next
  case (Cons p ps)
  obtain r s1 where f: "label_fetch net l sb sd lid s tok = (r, s1)"
    by (cases "label_fetch net l sb sd lid s tok")
  with Cons.prems have rp: "r = p" by simp
  from Cons.prems have pg: "is_page p" by simp
  show ?case
  proof (cases "ps = []")
    case True
    with Cons.prems f rp pg show ?thesis
      by (subst get_proof_by_label_loop.simps)
         (simp add: is_page_label_step label_fetch_def[symmetric])
  next
    case False
    with Cons.prems have more: "py_truthy (continuation p)" by simp
    from Cons.prems False f
    have sv: "serves (label_fetch net l sb sd lid) s1 (continuation p) ps" by simp
    from Cons.prems False
    have a: "\<forall>p\<in>set ps. is_page p" "\<forall>p\<in>set (butlast ps). py_truthy (continuation p)"
       "\<not> py_truthy (continuation (last ps))" by simp_all
    from Cons.IH[OF False sv a] f rp pg more False show ?thesis
      by (subst get_proof_by_label_loop.simps)
         (simp add: is_page_label_step label_fetch_def[symmetric])
  qed
qed

text \<open>
  Claim C10. Let \<open>get_proof_by_label\<close> find its label, and let the fetches of its loop
  return the pages \<open>P1..Pn\<close> (every page but the last with a non-empty continuation token).
  Called with \<open>raw=False\<close> it returns the records of all \<open>n\<close> pages, concatenated in order;
  called with \<open>raw=True\<close> it returns the envelope of the last page \<open>Pn\<close> alone, not the
  accumulated records.
\<close>

theorem raw_returns_last_page_only:
  assumes "matching_label_id net re_search s label_name = (Inr label_id, s0)"
    and "pages \<noteq> []"
    and "serves (label_fetch net limit sort_by sort_direction label_id) s0 JNull pages"
    and "\<forall>p\<in>set pages. is_page p"
    and "\<forall>p\<in>set (butlast pages). py_truthy (continuation p)"
    and "\<not> py_truthy (continuation (last pages))"
  shows "get_proof_by_label net re_search s label_name limit sort_by sort_direction False
           = Some (Inr (JArr (concat (map records pages))),
                   after (label_fetch net limit sort_by sort_direction label_id) s0 JNull pages)
       \<and> get_proof_by_label net re_search s label_name limit sort_by sort_direction True
           = Some (Inr (last pages),
                   after (label_fetch net limit sort_by sort_direction label_id) s0 JNull pages)"
  using label_loop_pages [OF assms(2-6), of label_name "[]"] assms(1)
  by (simp add: get_proof_by_label_def)

theorem raw_returns_last_page_only_witness:
  "(case get_proof_by_label scripted substring_search
           (client0 (JStr ''tok'') [json_reply label_list, json_reply page1, json_reply page2])
           ''Backup'' (JInt 500) (JStr ''uploadedOn'') (JStr ''desc'') False of
      Some (r, s1) \<Rightarrow> r = Inr (JArr [JInt 1, JInt 2, JInt 3]) | None \<Rightarrow> False)
   \<and> (case get_proof_by_label scripted substring_search
           (client0 (JStr ''tok'') [json_reply label_list, json_reply page1, json_reply page2])
           ''Backup'' (JInt 500) (JStr ''uploadedOn'') (JStr ''desc'') True of
      Some (r, s1) \<Rightarrow> r = Inr page2 | None \<Rightarrow> False)"
  using raw_returns_last_page_only [of scripted substring_search
      "client0 (JStr ''tok'') [json_reply label_list, json_reply page1, json_reply page2]"
      "''Backup''" "JStr ''L2''"
      "snd (get_label_summaries scripted
         (client0 (JStr ''tok'') [json_reply label_list, json_reply page1, json_reply page2])
         JNull JNull False)"
      "[page1, page2]" "JInt 500" "JStr ''uploadedOn''" "JStr ''desc''"]
  by (simp add: matching_label_id_def get_label_summaries_def label_fetch_def eval_client
        label_list_def page1_def page2_def prefix_code)

section \<open>Deleting a task comment\<close>

text \<open>
  Claim C1 fails on the code. \<open>delete_task_comment\<close> calls \<open>self.client.delete\<close>, and the
  client has no attribute of that name: every call raises an \<open>AttributeError\<close> before any
  request is sent, whatever the network would do.
\<close>

theorem delete_task_comment_raises:
  "delete_task_comment net s task_id comment_id raw = (Inl (AttributeError ''delete''), s)"
  by (simp add: delete_task_comment_def getattr_def)

end
